theory Spec2Isabelle
  imports Main "HOL-Library.AList"
begin

section \<open>JavaScript values\<close>

text \<open>
  The values that travel through the path resolver are modelled as trees: the primitives,
  plain objects (own properties in insertion order), arrays (elements, where \<open>None\<close> is a
  hole, plus own non-index properties) and opaque built-ins (the functions that plain
  objects, arrays and primitives inherit from their prototypes).  A tree has no sharing
  and no cycles: two paths never reach the same mutable object.  Numbers are the integers
  (the resolver never computes with them, and the transforms of the test suite are taken
  in the range where doubles are exact); strings are lists of code units below 256.
\<close>

datatype jsval =
    Undefined
  | Null
  | Bool bool
  | Num int
  | Str string
  | Obj "(string \<times> jsval) list"
  | Arr "jsval option list" "(string \<times> jsval) list"
  | Builtin nat

text \<open>
  The host (the JavaScript engine) decides which property names a value inherits from its
  prototype chain; \<open>h p k = Some n\<close> says that key \<open>k\<close> is found on the chain of a value
  of class \<open>p\<close> and names the built-in with identity \<open>n\<close>.  Every operation takes the
  host as a parameter, so that nothing proved depends on one engine version.
\<close>

datatype proto = ObjectProto | ArrayProto | StringProto | NumberProto | BooleanProto

type_synonym host = "proto \<Rightarrow> string \<Rightarrow> nat option"

text \<open>
  Errors are values.  The first three are the \<open>ValidationError\<close> messages of
  \<open>utils/validation.ts\<close>, the next three the errors of the template engine,
  \<open>TypeError\<close> and \<open>RangeError\<close> are raised by the engine itself, \<open>Thrown\<close> is an
  error raised by a user-supplied function, and \<open>OutsideModel\<close> marks a step whose
  JavaScript result the value model cannot express (a member of a built-in function, a
  coercion of a non-number to an array length, ...): it is no behaviour of the code.
\<close>

datatype js_error =
    NullOrUndefined
  | InvalidPath
  | SecurityViolation string
  | EmptyPath
  | InvalidObject
  | TransformNameRequired
  | TypeError
  | RangeError
  | Thrown string
  | OutsideModel

definition nullish :: "jsval \<Rightarrow> bool" where
  "nullish v = (v = Null \<or> v = Undefined)"

fun isArray :: "jsval \<Rightarrow> bool" where
  "isArray (Arr es ps) = True"
| "isArray v = False"

fun is_ref :: "jsval \<Rightarrow> bool" where
  "is_ref (Obj kvs) = True"
| "is_ref (Arr es ps) = True"
| "is_ref v = False"

section \<open>Strings\<close>

text \<open>The white space that \<open>trim\<close>, \<open>parseInt\<close> and \<open>Number\<close> skip, among the code units
  below 256: tab, line feed, vertical tab, form feed, carriage return, space and the
  no-break space.\<close>

definition is_ws :: "char \<Rightarrow> bool" where
  "is_ws c = (c \<in> set [CHR 0x09, CHR 0x0A, CHR 0x0B, CHR 0x0C, CHR 0x0D, CHR 0x20, CHR 0xA0])"

definition trim :: "string \<Rightarrow> string" where
  "trim s = rev (dropWhile is_ws (rev (dropWhile is_ws s)))"

fun split_on :: "char \<Rightarrow> string \<Rightarrow> string list" where
  "split_on c [] = [[]]"
| "split_on c (x # xs) =
     (if x = c then [] # split_on c xs
      else (case split_on c xs of y # ys \<Rightarrow> (x # y) # ys | [] \<Rightarrow> [[x]]))"

definition startsWith :: "string \<Rightarrow> string \<Rightarrow> bool" where
  "startsWith s p = (take (length p) s = p)"

definition endsWith :: "string \<Rightarrow> string \<Rightarrow> bool" where
  "endsWith s p = (length p \<le> length s \<and> drop (length s - length p) s = p)"

definition is_digit :: "char \<Rightarrow> bool" where
  "is_digit c = (c \<in> set ''0123456789'')"

definition digit_val :: "char \<Rightarrow> nat" where
  "digit_val c = of_char c - 48"

definition digits_val :: "string \<Rightarrow> nat" where
  "digits_val s = foldl (\<lambda>n c. 10 * n + digit_val c) 0 s"

text \<open>A canonical decimal numeral: digits only, no leading zero (except \<open>0\<close> itself).\<close>

definition canonical_nat :: "string \<Rightarrow> nat option" where
  "canonical_nat k =
     (if k \<noteq> [] \<and> list_all is_digit k \<and> (k = ''0'' \<or> hd k \<noteq> CHR ''0'')
      then Some (digits_val k) else None)"

text \<open>An array index is a canonical numeral below \<open>2^32 - 1\<close>; any other key of an array
  is an ordinary property.\<close>

definition array_index :: "string \<Rightarrow> nat option" where
  "array_index k =
     (case canonical_nat k of
        Some n \<Rightarrow> if n < 4294967295 then Some n else None
      | None \<Rightarrow> None)"

text \<open>\<open>Number.parseInt(s, 10)\<close>: leading white space, an optional sign, then the longest
  run of digits; \<open>None\<close> is \<open>NaN\<close>.\<close>

definition parseInt :: "string \<Rightarrow> int option" where
  "parseInt s =
     (let t = dropWhile is_ws s;
          neg = (t \<noteq> [] \<and> hd t = CHR ''-'');
          u = (if t \<noteq> [] \<and> (hd t = CHR ''-'' \<or> hd t = CHR ''+'') then tl t else t);
          ds = takeWhile is_digit u
      in if ds = [] then None
         else Some (if neg then - int (digits_val ds) else int (digits_val ds)))"

section \<open>Property access of the engine\<close>

definition inherited :: "host \<Rightarrow> proto \<Rightarrow> string \<Rightarrow> jsval" where
  "inherited h p k = (case h p k of Some n \<Rightarrow> Builtin n | None \<Rightarrow> Undefined)"

text \<open>\<open>current[part]\<close> as a read.\<close>

fun get_member :: "host \<Rightarrow> jsval \<Rightarrow> string \<Rightarrow> js_error + jsval" where
  "get_member h Undefined k = Inl TypeError"
| "get_member h Null k = Inl TypeError"
| "get_member h (Bool b) k = Inr (inherited h BooleanProto k)"
| "get_member h (Num n) k = Inr (inherited h NumberProto k)"
| "get_member h (Str s) k =
     (case canonical_nat k of
        Some i \<Rightarrow> if i < length s then Inr (Str [s ! i]) else Inr (inherited h StringProto k)
      | None \<Rightarrow> if k = ''length'' then Inr (Num (int (length s)))
                else Inr (inherited h StringProto k))"
| "get_member h (Obj kvs) k =
     (case map_of kvs k of
        Some v \<Rightarrow> Inr v
      | None \<Rightarrow> Inr (inherited h ObjectProto k))"
| "get_member h (Arr es ps) k =
     (case array_index k of
        Some i \<Rightarrow>
          (if i < length es
           then (case es ! i of Some v \<Rightarrow> Inr v | None \<Rightarrow> Inr (inherited h ArrayProto k))
           else Inr (inherited h ArrayProto k))
      | None \<Rightarrow>
          if k = ''length'' then Inr (Num (int (length es)))
          else (case map_of ps k of
                  Some v \<Rightarrow> Inr v
                | None \<Rightarrow> Inr (inherited h ArrayProto k)))"
| "get_member h (Builtin n) k = Inl OutsideModel"

text \<open>\<open>part in current\<close>: a \<open>TypeError\<close> on every primitive.\<close>

fun has_member :: "host \<Rightarrow> jsval \<Rightarrow> string \<Rightarrow> js_error + bool" where
  "has_member h (Obj kvs) k = Inr (map_of kvs k \<noteq> None \<or> h ObjectProto k \<noteq> None)"
| "has_member h (Arr es ps) k =
     (case array_index k of
        Some i \<Rightarrow> Inr ((i < length es \<and> es ! i \<noteq> None) \<or> h ArrayProto k \<noteq> None)
      | None \<Rightarrow> Inr (k = ''length'' \<or> map_of ps k \<noteq> None \<or> h ArrayProto k \<noteq> None))"
| "has_member h (Builtin n) k = Inl OutsideModel"
| "has_member h v k = Inl TypeError"

text \<open>\<open>current[part] = v\<close> in strict mode (module code): a \<open>TypeError\<close> on every
  primitive.  Writing an index at or beyond the length extends the array with holes;
  writing \<open>length\<close> resizes it.\<close>

fun set_member :: "host \<Rightarrow> jsval \<Rightarrow> string \<Rightarrow> jsval \<Rightarrow> js_error + jsval" where
  "set_member h (Obj kvs) k v = Inr (Obj (AList.update k v kvs))"
| "set_member h (Arr es ps) k v =
     (case array_index k of
        Some i \<Rightarrow>
          (if i < length es then Inr (Arr (es[i := Some v]) ps)
           else Inr (Arr (es @ replicate (i - length es) None @ [Some v]) ps))
      | None \<Rightarrow>
          if k = ''length'' then
            (case v of
               Num n \<Rightarrow>
                 if 0 \<le> n \<and> n < 4294967296
                 then Inr (Arr (take (nat n) es @ replicate (nat n - length es) None) ps)
                 else Inl RangeError
             | _ \<Rightarrow> Inl OutsideModel)
          else Inr (Arr es (AList.update k v ps)))"
| "set_member h (Builtin n) k v = Inl OutsideModel"
| "set_member h c k v = Inl TypeError"

text \<open>\<open>delete current[part]\<close> in strict mode, for the receivers \<open>removeProp\<close> applies it
  to (never an array): own properties of a plain object are deleted, the index and
  \<open>length\<close> properties of a string are not configurable.\<close>

fun delete_member :: "host \<Rightarrow> jsval \<Rightarrow> string \<Rightarrow> js_error + jsval" where
  "delete_member h (Obj kvs) k = Inr (Obj (AList.delete k kvs))"
| "delete_member h (Str s) k =
     (case canonical_nat k of
        Some i \<Rightarrow> if i < length s then Inl TypeError else Inr (Str s)
      | None \<Rightarrow> if k = ''length'' then Inl TypeError else Inr (Str s))"
| "delete_member h (Bool b) k = Inr (Bool b)"
| "delete_member h (Num n) k = Inr (Num n)"
| "delete_member h (Builtin n) k = Inl OutsideModel"
| "delete_member h (Arr es ps) k = Inl OutsideModel"
| "delete_member h c k = Inl TypeError"

text \<open>\<open>current.splice(index, 1)\<close>: a negative start counts from the end, the start is
  clamped to the length, at most one element is removed and the rest shifts down.\<close>

fun splice1 :: "jsval \<Rightarrow> int \<Rightarrow> jsval" where
  "splice1 (Arr es ps) i =
     (let len = int (length es);
          start = (if i < 0 then max (len + i) 0 else min i len)
      in Arr (take (nat start) es @ drop (nat start + 1) es) ps)"
| "splice1 v i = v"

text \<open>
  The code mutates a child container through the reference it has read from its parent.
  In the tree model the updated child is stored back under the own key it was read from;
  a primitive child is never changed, and for it the parent stays as it is.
\<close>

fun put_member :: "jsval \<Rightarrow> string \<Rightarrow> jsval \<Rightarrow> jsval" where
  "put_member (Obj kvs) k v = Obj (AList.update k v kvs)"
| "put_member (Arr es ps) k v =
     (case array_index k of
        Some i \<Rightarrow> if i < length es then Arr (es[i := Some v]) ps else Arr es ps
      | None \<Rightarrow> if k = ''length'' then Arr es ps else Arr es (AList.update k v ps))"
| "put_member c k v = c"

section \<open>Validation (utils/validation.ts)\<close>

fun bind :: "'e + 'a \<Rightarrow> ('a \<Rightarrow> 'e + 'b) \<Rightarrow> 'e + 'b" where
  "bind (Inl e) f = Inl e"
| "bind (Inr x) f = f x"

definition securityTerms :: "string list" where
  "securityTerms =
     [''__proto__'', ''constructor'', ''prototype'', ''get'', ''set'', ''defineProperty'']"

fun check_parts :: "string list \<Rightarrow> js_error + unit" where
  "check_parts [] = Inr ()"
| "check_parts (part # parts) =
     (if part \<in> set securityTerms then Inl (SecurityViolation part) else check_parts parts)"

definition validateSecurityTerms :: "string \<Rightarrow> js_error + unit" where
  "validateSecurityTerms path = check_parts (split_on CHR ''.'' path)"

text \<open>The path is whatever the caller passes; the validated path is returned as a string.\<close>

definition validateInput :: "jsval \<Rightarrow> jsval \<Rightarrow> js_error + string" where
  "validateInput obj path =
     (if nullish obj then Inl NullOrUndefined
      else (case path of
              Str s \<Rightarrow>
                if s = [] \<or> trim s = [] then Inl InvalidPath
                else bind (validateSecurityTerms s) (\<lambda>_. Inr s)
            | _ \<Rightarrow> Inl InvalidPath))"

section \<open>The path resolver (props.ts)\<close>

text \<open>
  A transformer is a user function on values; it may throw.  \<open>transformers cfg t\<close> is
  \<open>Object.entries\<close> of the table configured for operation \<open>t\<close> (empty when there is
  none); an entry may hold no function.  \<open>fallback cfg\<close> is \<open>Undefined\<close> until configured.
  The calls to the logger are left out: they return nothing to the resolver.
\<close>

type_synonym transformer = "jsval \<Rightarrow> js_error + jsval"

datatype op_type = GetProp | SetProp | HasProp | RemoveProp

record props_config =
  fallback :: jsval
  transformers :: "op_type \<Rightarrow> (string \<times> transformer option) list"

definition globalConfig0 :: props_config where
  "globalConfig0 = \<lparr> fallback = Undefined, transformers = (\<lambda>t. []) \<rparr>"

fun apply_entries :: "string \<Rightarrow> (string \<times> transformer option) list \<Rightarrow> jsval \<Rightarrow> js_error + jsval" where
  "apply_entries path [] result = Inr result"
| "apply_entries path ((name, t) # rest) result =
     (case t of
        Some f \<Rightarrow>
          if endsWith path name then bind (f result) (apply_entries path rest)
          else apply_entries path rest result
      | None \<Rightarrow> apply_entries path rest result)"

definition applyTransformers :: "props_config \<Rightarrow> jsval \<Rightarrow> string \<Rightarrow> op_type \<Rightarrow> js_error + jsval" where
  "applyTransformers cfg v path t = apply_entries path (transformers cfg t) v"

text \<open>\<open>a ?? b\<close>\<close>

definition coalesce :: "jsval \<Rightarrow> jsval \<Rightarrow> jsval" where
  "coalesce a b = (if nullish a then b else a)"

text \<open>The loop of \<open>getProp\<close>: \<open>None\<close> is the early exit on a null or undefined current
  value, \<open>Some v\<close> the value the loop ends with.\<close>

fun get_walk :: "host \<Rightarrow> jsval \<Rightarrow> string list \<Rightarrow> js_error + jsval option" where
  "get_walk h cur [] = Inr (Some cur)"
| "get_walk h cur (part # rest) =
     (if nullish cur then Inr None
      else bind (get_member h cur part) (\<lambda>x. get_walk h x rest))"

definition getProp :: "host \<Rightarrow> props_config \<Rightarrow> jsval \<Rightarrow> jsval \<Rightarrow> jsval \<Rightarrow> js_error + jsval" where
  "getProp h cfg obj path defaultValue =
     bind (validateInput obj path) (\<lambda>p.
     bind (validateSecurityTerms p) (\<lambda>_.
     bind (get_walk h obj (split_on CHR ''.'' p)) (\<lambda>r.
       case r of
         None \<Rightarrow> Inr (coalesce defaultValue (fallback cfg))
       | Some cur \<Rightarrow>
           if cur = Undefined then Inr (coalesce defaultValue (fallback cfg))
           else applyTransformers cfg cur p GetProp)))"

text \<open>The loop and the final assignment of \<open>setProp\<close>.  The list of parts is never empty.\<close>

fun set_loop :: "host \<Rightarrow> jsval \<Rightarrow> string list \<Rightarrow> jsval \<Rightarrow> js_error + jsval" where
  "set_loop h cur [] v = Inl OutsideModel"
| "set_loop h cur [lastPart] v = set_member h cur lastPart v"
| "set_loop h cur (part # rest) v =
     bind (get_member h cur part) (\<lambda>x.
     bind (if x = Undefined
           then bind (set_member h cur part (Obj [])) (\<lambda>cur'.
                bind (get_member h cur' part) (\<lambda>x'. Inr (cur', x')))
           else Inr (cur, x)) (\<lambda>(cur1, x1).
     bind (set_loop h x1 rest v) (\<lambda>x2. Inr (put_member cur1 part x2))))"

definition setProp :: "host \<Rightarrow> props_config \<Rightarrow> jsval \<Rightarrow> jsval \<Rightarrow> jsval \<Rightarrow> js_error + jsval" where
  "setProp h cfg obj path v =
     bind (validateInput obj path) (\<lambda>p.
     bind (validateSecurityTerms p) (\<lambda>_.
     bind (applyTransformers cfg v p SetProp) (\<lambda>transformedValue.
       set_loop h obj (split_on CHR ''.'' p) transformedValue)))"

fun has_walk :: "host \<Rightarrow> jsval \<Rightarrow> string list \<Rightarrow> js_error + bool" where
  "has_walk h cur [] = Inr True"
| "has_walk h cur (part # rest) =
     (if nullish cur then Inr False
      else bind (has_member h cur part) (\<lambda>b.
           if \<not> b then Inr False
           else bind (get_member h cur part) (\<lambda>x. has_walk h x rest)))"

definition hasProp :: "host \<Rightarrow> props_config \<Rightarrow> jsval \<Rightarrow> jsval \<Rightarrow> js_error + bool" where
  "hasProp h cfg obj path =
     bind (validateInput obj path) (\<lambda>p.
     bind (validateSecurityTerms p) (\<lambda>_.
       has_walk h obj (split_on CHR ''.'' p)))"

fun remove_loop :: "host \<Rightarrow> jsval \<Rightarrow> string list \<Rightarrow> js_error + jsval" where
  "remove_loop h cur [] = Inl OutsideModel"
| "remove_loop h cur [lastPart] =
     (if nullish cur then Inr cur
      else if isArray cur then
        (case parseInt lastPart of
           None \<Rightarrow> Inr cur
         | Some index \<Rightarrow> Inr (splice1 cur index))
      else delete_member h cur lastPart)"
| "remove_loop h cur (part # rest) =
     (if nullish cur then Inr cur
      else bind (get_member h cur part) (\<lambda>x.
           if x = Undefined then Inr cur
           else bind (remove_loop h x rest) (\<lambda>x'. Inr (put_member cur part x'))))"

text \<open>
  \<open>removeProp\<close> walks the result of the \<open>removeProp\<close> transformers and returns \<open>obj\<close>.
  Whether that result is \<open>obj\<close> itself or a copy is not a property of a value, so a call
  for which some transformer applies is outside the model, unless the transformer throws.
\<close>

definition applies :: "string \<Rightarrow> string \<times> transformer option \<Rightarrow> bool" where
  "applies path e = (case snd e of Some f \<Rightarrow> endsWith path (fst e) | None \<Rightarrow> False)"

definition removeProp :: "host \<Rightarrow> props_config \<Rightarrow> jsval \<Rightarrow> jsval \<Rightarrow> js_error + jsval" where
  "removeProp h cfg obj path =
     (if nullish obj then Inr obj
      else
        bind (validateInput obj path) (\<lambda>p.
        bind (validateSecurityTerms p) (\<lambda>_.
          if list_ex (applies p) (transformers cfg RemoveProp)
          then bind (applyTransformers cfg obj p RemoveProp) (\<lambda>_. Inl OutsideModel)
          else remove_loop h obj (split_on CHR ''.'' p))))"



text \<open>The decimal numeral of a natural number.\<close>

function digits_of :: "nat \<Rightarrow> string" where
  "digits_of n =
     (if n < 10 then [''0123456789'' ! n]
      else digits_of (n div 10) @ [''0123456789'' ! (n mod 10)])"
  by pat_completeness auto
termination
  by (relation "measure id") auto

declare digits_of.simps [simp del]

section \<open>Strings of the template engine\<close>

text \<open>
  \<open>Number(s)\<close> for a string: white space is trimmed, the empty string is 0, an optionally
  signed run of digits is that integer.  Integers beyond the safe range, minus zero,
  \<open>Infinity\<close> and the strings that begin like a numeral but are not a run of digits
  (fractions, exponents, hexadecimal, malformed numerals) are left undecided by the model
  (\<open>OtherNumber\<close>); every other string is \<open>NaN\<close>.
\<close>

datatype number_parse = NaN | IntegerValue int | OtherNumber

definition js_Number :: "string \<Rightarrow> number_parse" where
  "js_Number s =
     (let t = trim s in
      if t = [] then IntegerValue 0
      else
        let neg = (hd t = CHR ''-'');
            u = (if hd t = CHR ''-'' \<or> hd t = CHR ''+'' then tl t else t)
        in if u \<noteq> [] \<and> list_all is_digit u then
             (if digits_val u \<le> 9007199254740991 \<and> \<not> (neg \<and> digits_val u = 0)
              then IntegerValue (if neg then - int (digits_val u) else int (digits_val u))
              else OtherNumber)
           else if u = ''Infinity'' then OtherNumber
           else if u \<noteq> [] \<and> (is_digit (hd u) \<or> hd u = CHR ''.'') then OtherNumber
           else NaN)"

text \<open>
  \<open>String(v)\<close> of the standard engine.  A plain object prints as \<open>[object Object]\<close>
  unless it has an own \<open>toString\<close>, which in the value model is not callable; an array
  joins its elements with commas, where holes, null and undefined print as nothing.
\<close>

definition int_to_string :: "int \<Rightarrow> js_error + string" where
  "int_to_string n =
     (if \<bar>n\<bar> \<le> 9007199254740991
      then Inr (if n < 0 then CHR ''-'' # digits_of (nat (- n)) else digits_of (nat n))
      else Inl OutsideModel)"

definition own_toString :: "(string \<times> jsval) list \<Rightarrow> (js_error + string) option" where
  "own_toString ps =
     (case map_of ps ''toString'' of
        None \<Rightarrow> None
      | Some (Builtin n) \<Rightarrow> Some (Inl OutsideModel)
      | Some v \<Rightarrow>
          (case map_of ps ''valueOf'' of
             Some (Builtin n) \<Rightarrow> Some (Inl OutsideModel)
           | _ \<Rightarrow> Some (Inl TypeError)))"

fun js_String :: "jsval \<Rightarrow> js_error + string"
  and js_join :: "jsval option list \<Rightarrow> js_error + string"
  and js_element :: "jsval option \<Rightarrow> js_error + string" where
  "js_String Undefined = Inr ''undefined''"
| "js_String Null = Inr ''null''"
| "js_String (Bool b) = Inr (if b then ''true'' else ''false'')"
| "js_String (Num n) = int_to_string n"
| "js_String (Str s) = Inr s"
| "js_String (Obj kvs) =
     (case own_toString kvs of Some r \<Rightarrow> r | None \<Rightarrow> Inr ''[object Object]'')"
| "js_String (Arr es ps) =
     (case own_toString ps of
        Some r \<Rightarrow> r
      | None \<Rightarrow>
          (case map_of ps ''join'' of
             Some (Builtin n) \<Rightarrow> Inl OutsideModel
           | Some v \<Rightarrow> Inr ''[object Array]''
           | None \<Rightarrow> js_join es))"
| "js_String (Builtin n) = Inl OutsideModel"
| "js_join [] = Inr []"
| "js_join [e] = js_element e"
| "js_join (e # es) =
     bind (js_element e) (\<lambda>s. bind (js_join es) (\<lambda>r. Inr (s @ '','' @ r)))"
| "js_element None = Inr []"
| "js_element (Some v) = (if nullish v then Inr [] else js_String v)"

text \<open>The pattern \<open>/\{\{([^}]+)\}\}/\<close> at the start of a string: the group and the rest
  after the match.  The greedy class takes every character up to the next \<open>}\<close>, and the
  match succeeds when the group is not empty and \<open>}}\<close> follows.\<close>

fun match_at :: "string \<Rightarrow> (string \<times> string) option" where
  "match_at (c1 # c2 # s) =
     (if c1 = CHR ''{'' \<and> c2 = CHR ''{'' then
        (case dropWhile (\<lambda>c. c \<noteq> CHR ''}'') s of
           d1 # d2 # rest \<Rightarrow>
             if takeWhile (\<lambda>c. c \<noteq> CHR ''}'') s \<noteq> [] \<and> d1 = CHR ''}'' \<and> d2 = CHR ''}''
             then Some (takeWhile (\<lambda>c. c \<noteq> CHR ''}'') s, rest) else None
         | _ \<Rightarrow> None)
      else None)"
| "match_at s = None"

text \<open>\<open>template.match(/\{\{([^}]+)\}\}/g) || []\<close>: the matched texts, left to right, not
  overlapping.\<close>

function scan_matches :: "string \<Rightarrow> string list" where
  "scan_matches [] = []"
| "scan_matches (c # s) =
     (case match_at (c # s) of
        Some (body, rest) \<Rightarrow> (''{{'' @ body @ ''}}'') # scan_matches rest
      | None \<Rightarrow> scan_matches s)"
  by pat_completeness auto
termination
proof (relation "measure length")
  show "wf (measure length)"
    by simp
next
  fix c :: char and s x2 body rest
  assume a: "match_at (c # s) = Some x2" and x: "(body, rest) = x2"
  then obtain c2 s' d1 d2 where s: "s = c2 # s'"
    and d: "dropWhile (\<lambda>c. c \<noteq> CHR ''}'') s' = d1 # d2 # rest"
    by (cases s) (auto split: if_splits list.splits)
  have "length (dropWhile (\<lambda>c. c \<noteq> CHR ''}'') s') \<le> length s'"
    by (rule length_dropWhile_le)
  then have "length rest < length (c # s)"
    using s d by simp
  then show "(rest, c # s) \<in> measure length"
    by simp
next
  fix c :: char and s
  show "(s, c # s) \<in> measure length"
    by simp
qed

text \<open>The group of the first match of the pattern in a string.\<close>

fun first_group :: "string \<Rightarrow> string option" where
  "first_group [] = None"
| "first_group (c # s) =
     (case match_at (c # s) of Some (body, rest) \<Rightarrow> Some body | None \<Rightarrow> first_group s)"

text \<open>\<open>result.replace(match, value)\<close> with a string pattern: only the first occurrence of
  the pattern is replaced, and in the replacement \<open>$$\<close>, \<open>$&\<close>, \<open>$`\<close> and \<open>$'\<close> stand for a
  dollar sign, the matched text, the text before it and the text after it.\<close>

fun split_first :: "string \<Rightarrow> string \<Rightarrow> (string \<times> string) option" where
  "split_first pat [] = (if pat = [] then Some ([], []) else None)"
| "split_first pat (c # s) =
     (if startsWith (c # s) pat then Some ([], drop (length pat) (c # s))
      else map_option (\<lambda>(b, a). (c # b, a)) (split_first pat s))"

fun get_substitution :: "string \<Rightarrow> string \<Rightarrow> string \<Rightarrow> string \<Rightarrow> string" where
  "get_substitution m b a [] = []"
| "get_substitution m b a [c] = [c]"
| "get_substitution m b a (c # d # r) =
     (if c = CHR ''$'' then
        (if d = CHR ''$'' then CHR ''$'' # get_substitution m b a r
         else if d = CHR ''&'' then m @ get_substitution m b a r
         else if d = CHR 0x60 then b @ get_substitution m b a r
         else if d = CHR 0x27 then a @ get_substitution m b a r
         else c # get_substitution m b a (d # r))
      else c # get_substitution m b a (d # r))"

definition js_replace :: "string \<Rightarrow> string \<Rightarrow> string \<Rightarrow> string" where
  "js_replace result pat value =
     (case split_first pat result of
        None \<Rightarrow> result
      | Some (b, a) \<Rightarrow> b @ get_substitution pat b a value @ a)"

section \<open>The template engine (template.ts)\<close>

text \<open>
  An asynchronous function is modelled by its outcome: \<open>Inr\<close> is the value the promise
  resolves to, \<open>Inl\<close> the error it rejects with; awaiting in sequence is sequential
  composition.  The calls to the logger of the template module are collected in a log.
  A transform is a function object: a pair of its identity and its behaviour.
\<close>

datatype log_event =
    Log string string jsval
  | LogError string js_error
  | LogWarn string string

type_synonym 'a io = "log_event list \<times> (js_error + 'a)"

definition io_ret :: "'a \<Rightarrow> 'a io" where
  "io_ret x = ([], Inr x)"

definition io_lift :: "js_error + 'a \<Rightarrow> 'a io" where
  "io_lift r = ([], r)"

definition io_log :: "log_event \<Rightarrow> unit io" where
  "io_log ev = ([ev], Inr ())"

definition io_bind :: "'a io \<Rightarrow> ('a \<Rightarrow> 'b io) \<Rightarrow> 'b io" where
  "io_bind m f =
     (case snd m of
        Inl e \<Rightarrow> (fst m, Inl e)
      | Inr x \<Rightarrow> (fst m @ fst (f x), snd (f x)))"

text \<open>\<open>try { ... } catch (error) { logger.error(path, ...); throw error; }\<close>\<close>

definition log_rethrow :: "string \<Rightarrow> 'a io \<Rightarrow> 'a io" where
  "log_rethrow path m =
     (case snd m of
        Inl e \<Rightarrow> (fst m @ [LogError path e], Inl e)
      | Inr x \<Rightarrow> m)"

type_synonym transform = "nat \<times> (jsval \<Rightarrow> jsval list \<Rightarrow> js_error + jsval)"

record engine =
  engine_transformers :: "(string \<times> transform) list"
  defaultTransformer :: transform
  defaultValue :: jsval

definition engine0 :: engine where
  "engine0 = \<lparr> engine_transformers = [], defaultTransformer = (0, \<lambda>v args. Inr v),
               defaultValue = Str [] \<rparr>"

text \<open>\<open>use(config)\<close>: \<open>default\<close> and \<open>fallback\<close> are optional (\<open>None\<close>, \<open>Undefined\<close>).\<close>

definition engine_use :: "engine \<Rightarrow> (string \<times> transform) list \<Rightarrow> transform option \<Rightarrow> jsval \<Rightarrow> engine" where
  "engine_use E ts dflt fb =
     \<lparr> engine_transformers = ts,
       defaultTransformer = (case dflt of Some f \<Rightarrow> f | None \<Rightarrow> defaultTransformer E),
       defaultValue = (if fb \<noteq> Undefined then fb else defaultValue E) \<rparr>"

definition processArg :: "host \<Rightarrow> props_config \<Rightarrow> jsval \<Rightarrow> string \<Rightarrow> js_error + jsval" where
  "processArg h cfg data arg =
     (let trimmedArg = trim arg in
      if (startsWith trimmedArg [CHR 0x22] \<and> endsWith trimmedArg [CHR 0x22]) \<or>
         (startsWith trimmedArg [CHR 0x27] \<and> endsWith trimmedArg [CHR 0x27])
      then Inr (Str (butlast (tl trimmedArg)))
      else (case js_Number trimmedArg of
              IntegerValue n \<Rightarrow> Inr (Num n)
            | OtherNumber \<Rightarrow> Inl OutsideModel
            | NaN \<Rightarrow>
                if trimmedArg = ''true'' then Inr (Bool True)
                else if trimmedArg = ''false'' then Inr (Bool False)
                else if trimmedArg = ''null'' then Inr Null
                else if trimmedArg = ''undefined'' then Inr Undefined
                else (case getProp h cfg data (Str trimmedArg) Undefined of
                        Inr contextValue \<Rightarrow>
                          if contextValue \<noteq> Undefined then Inr contextValue
                          else Inr (Str trimmedArg)
                      | Inl OutsideModel \<Rightarrow> Inl OutsideModel
                      | Inl e \<Rightarrow> Inr (Str trimmedArg))))"

fun processArgs :: "host \<Rightarrow> props_config \<Rightarrow> string list \<Rightarrow> jsval \<Rightarrow> js_error + jsval list" where
  "processArgs h cfg [] data = Inr []"
| "processArgs h cfg (arg # args) data =
     bind (processArg h cfg data arg) (\<lambda>v.
     bind (processArgs h cfg args data) (\<lambda>vs. Inr (v # vs)))"

text \<open>\<open>this.transformers[transformName] || this.defaultTransformer\<close>: a registered
  transform, or a function that the table object inherits (calling that one is outside the
  model), or else the default transformer.\<close>

definition lookup_transform :: "host \<Rightarrow> engine \<Rightarrow> string \<Rightarrow> js_error + transform" where
  "lookup_transform h E transformName =
     (case map_of (engine_transformers E) transformName of
        Some f \<Rightarrow> Inr f
      | None \<Rightarrow>
          (case h ObjectProto transformName of
             Some n \<Rightarrow> Inl OutsideModel
           | None \<Rightarrow> Inr (defaultTransformer E)))"

definition unknown_message :: "string \<Rightarrow> string" where
  "unknown_message transformName =
     ''Transformador desconhecido: '' @ transformName @
     '', usando transformador padr'' @ [CHR 0xE3] @ ''o''"

text \<open>\<open>transformExpr.indexOf(":")\<close> splits the expression into the name and the
  arguments.  The warning is logged whenever the function taken is the default
  transformer.\<close>

definition applyTransform ::
  "host \<Rightarrow> props_config \<Rightarrow> engine \<Rightarrow> jsval \<Rightarrow> string \<Rightarrow> jsval \<Rightarrow> jsval io" where
  "applyTransform h cfg E v transformExpr data =
     (let hasColon = (CHR '':'' \<in> set transformExpr);
          transformName =
            (if \<not> hasColon then transformExpr
             else trim (takeWhile (\<lambda>c. c \<noteq> CHR '':'') transformExpr));
          argsStr =
            (if \<not> hasColon then []
             else trim (tl (dropWhile (\<lambda>c. c \<noteq> CHR '':'') transformExpr)))
      in if transformName = [] then
           io_bind (io_log (LogError ''applyTransform'' TransformNameRequired)) (\<lambda>_.
             io_lift (Inl TransformNameRequired))
         else
           io_bind (io_lift (lookup_transform h E transformName)) (\<lambda>transform.
           io_bind (if fst transform = fst (defaultTransformer E)
                    then io_log (LogWarn ''applyTransform'' (unknown_message transformName))
                    else io_ret ()) (\<lambda>_.
           io_bind (io_lift (processArgs h cfg
                      (if argsStr = [] then [] else map trim (split_on CHR '','' argsStr))
                      data)) (\<lambda>processedArgs.
           log_rethrow transformName
             (io_bind (io_lift (snd transform v processedArgs)) (\<lambda>result.
              io_bind (io_log (Log ''transform'' transformName result)) (\<lambda>_.
                io_ret result)))))))"

definition extractTemplateContent :: "string \<Rightarrow> string" where
  "extractTemplateContent expr = (case first_group expr of Some g \<Rightarrow> trim g | None \<Rightarrow> [])"

text \<open>\<open>extractTransformers\<close>: the path and the transform expressions, each checked
  against the reserved identifiers.\<close>

fun check_all :: "string list \<Rightarrow> js_error + unit" where
  "check_all [] = Inr ()"
| "check_all (t # ts) = bind (validateSecurityTerms t) (\<lambda>_. check_all ts)"

definition extractTransformers :: "string \<Rightarrow> js_error + string \<times> string list" where
  "extractTransformers transformStr =
     (let parts = map trim (split_on CHR ''|'' transformStr);
          path = hd parts;
          ts = tl parts
      in bind (validateSecurityTerms path) (\<lambda>_.
         bind (check_all ts) (\<lambda>_. Inr (path, ts))))"

text \<open>\<open>validateTemplateContext\<close> for the operation \<open>template\<close>.  The data is accepted when
  it is truthy and its type is \<open>object\<close>: a plain object or an array.\<close>

definition validateTemplateInput :: "jsval \<Rightarrow> string \<Rightarrow> js_error + unit" where
  "validateTemplateInput data path =
     (if \<not> is_ref data then Inl InvalidObject
      else if path = [] \<or> trim path = [] then Inl EmptyPath
      else bind (validateSecurityTerms path) (\<lambda>_.
        if CHR ''|'' \<in> set path then
          (let basePath = hd (split_on CHR ''|'' path)
           in if trim basePath = [] then Inl EmptyPath else validateSecurityTerms basePath)
        else Inr ()))"

fun apply_all ::
  "host \<Rightarrow> props_config \<Rightarrow> engine \<Rightarrow> jsval \<Rightarrow> string list \<Rightarrow> jsval \<Rightarrow> jsval io" where
  "apply_all h cfg E data [] v = io_ret v"
| "apply_all h cfg E data (transformer # rest) v =
     io_bind (log_rethrow transformer (applyTransform h cfg E v transformer data))
       (\<lambda>v'. apply_all h cfg E data rest v')"

definition processTemplateMatch ::
  "host \<Rightarrow> props_config \<Rightarrow> engine \<Rightarrow> string \<Rightarrow> jsval \<Rightarrow> string io" where
  "processTemplateMatch h cfg E m data =
     (let content = extractTemplateContent m in
      if content = [] then
        io_bind (io_log (LogError ''processTemplateMatch'' EmptyPath)) (\<lambda>_. io_lift (Inl EmptyPath))
      else
        io_bind (io_lift (extractTransformers content)) (\<lambda>(path, ts).
        io_bind (io_lift (validateTemplateInput data path)) (\<lambda>_.
        io_bind (io_lift (getProp h cfg data (Str path) Undefined)) (\<lambda>v0.
        io_bind (if v0 = Undefined
                 then io_bind (io_log (Log ''get'' path (Str ''undefined''))) (\<lambda>_.
                      io_bind (io_log (Log ''fallback'' path (defaultValue E))) (\<lambda>_.
                        io_ret (defaultValue E)))
                 else io_bind (io_log (Log ''get'' path v0)) (\<lambda>_. io_ret v0)) (\<lambda>v.
        io_bind (apply_all h cfg E data ts v) (\<lambda>v'.
          io_lift (js_String v')))))))"

text \<open>The loop of \<open>processTemplate\<close>: one evaluation and one replacement for every element
  of the list of matches.\<close>

fun process_matches ::
  "host \<Rightarrow> props_config \<Rightarrow> engine \<Rightarrow> jsval \<Rightarrow> string list \<Rightarrow> string \<Rightarrow> string io" where
  "process_matches h cfg E data [] result = io_ret result"
| "process_matches h cfg E data (m # ms) result =
     io_bind (log_rethrow ''processTemplate''
                (io_bind (processTemplateMatch h cfg E m data) (\<lambda>v.
                   io_ret (js_replace result m v))))
       (\<lambda>result'. process_matches h cfg E data ms result')"

definition processTemplate ::
  "host \<Rightarrow> props_config \<Rightarrow> engine \<Rightarrow> string \<Rightarrow> jsval \<Rightarrow> string io" where
  "processTemplate h cfg E template data =
     io_bind (io_log (Log ''transform'' ''start'' (Str template))) (\<lambda>_.
     io_bind (process_matches h cfg E data (scan_matches template) template) (\<lambda>result.
     io_bind (io_log (Log ''transform'' ''complete'' (Str result))) (\<lambda>_.
       io_ret result)))"

section \<open>The transforms of the test suite\<close>

text \<open>
  \<open>add: async (v, amount) => v + amount\<close> and
  \<open>multiply: async (v, factor) => v * factor\<close>, on numbers in the range where the
  arithmetic of doubles is exact, and \<open>+\<close> on two strings; other operands are outside
  the model.
\<close>

definition safe_num :: "int \<Rightarrow> js_error + jsval" where
  "safe_num n = (if \<bar>n\<bar> \<le> 9007199254740991 then Inr (Num n) else Inl OutsideModel)"

fun js_add :: "jsval \<Rightarrow> jsval \<Rightarrow> js_error + jsval" where
  "js_add (Num a) (Num b) = safe_num (a + b)"
| "js_add (Str a) (Str b) = Inr (Str (a @ b))"
| "js_add a b = Inl OutsideModel"

fun js_multiply :: "jsval \<Rightarrow> jsval \<Rightarrow> js_error + jsval" where
  "js_multiply (Num a) (Num b) = safe_num (a * b)"
| "js_multiply a b = Inl OutsideModel"

definition first_arg :: "jsval list \<Rightarrow> jsval" where
  "first_arg args = (case args of [] \<Rightarrow> Undefined | a # _ \<Rightarrow> a)"

definition add_transform :: transform where
  "add_transform = (1, \<lambda>v args. js_add v (first_arg args))"

definition multiply_transform :: transform where
  "multiply_transform = (2, \<lambda>v args. js_multiply v (first_arg args))"

definition test_engine :: engine where
  "test_engine =
     engine_use engine0 [(''add'', add_transform), (''multiply'', multiply_transform)]
       None Undefined"

section \<open>A host for closed examples\<close>

text \<open>
  The names that the standard prototypes provide (ECMAScript 2022).  Only the closed
  examples below use this host; every general theorem holds for all hosts.
\<close>

fun own_names :: "proto \<Rightarrow> string list" where
  "own_names ObjectProto =
     [''constructor'', ''__defineGetter__'', ''__defineSetter__'', ''hasOwnProperty'',
      ''__lookupGetter__'', ''__lookupSetter__'', ''isPrototypeOf'',
      ''propertyIsEnumerable'', ''toString'', ''valueOf'', ''__proto__'',
      ''toLocaleString'']"
| "own_names ArrayProto =
     [''constructor'', ''at'', ''concat'', ''copyWithin'', ''fill'', ''find'', ''findIndex'',
      ''findLast'', ''findLastIndex'', ''lastIndexOf'', ''pop'', ''push'', ''reverse'',
      ''shift'', ''unshift'', ''slice'', ''sort'', ''splice'', ''includes'', ''indexOf'',
      ''join'', ''keys'', ''entries'', ''values'', ''forEach'', ''filter'', ''flat'',
      ''flatMap'', ''map'', ''every'', ''some'', ''reduce'', ''reduceRight'',
      ''toLocaleString'', ''toString'']"
| "own_names StringProto =
     [''constructor'', ''anchor'', ''at'', ''big'', ''blink'', ''bold'', ''charAt'',
      ''charCodeAt'', ''codePointAt'', ''concat'', ''endsWith'', ''fontcolor'', ''fontsize'',
      ''fixed'', ''includes'', ''indexOf'', ''italics'', ''lastIndexOf'', ''link'',
      ''localeCompare'', ''match'', ''matchAll'', ''normalize'', ''padEnd'', ''padStart'',
      ''repeat'', ''replace'', ''replaceAll'', ''search'', ''slice'', ''small'', ''split'',
      ''strike'', ''sub'', ''substr'', ''substring'', ''sup'', ''startsWith'', ''toString'',
      ''trim'', ''trimStart'', ''trimLeft'', ''trimEnd'', ''trimRight'',
      ''toLocaleLowerCase'', ''toLocaleUpperCase'', ''toLowerCase'', ''toUpperCase'',
      ''valueOf'']"
| "own_names NumberProto =
     [''constructor'', ''toExponential'', ''toFixed'', ''toPrecision'', ''toString'',
      ''valueOf'', ''toLocaleString'']"
| "own_names BooleanProto = [''constructor'', ''toString'', ''valueOf'']"

fun proto_code :: "proto \<Rightarrow> nat" where
  "proto_code ObjectProto = 0"
| "proto_code ArrayProto = 1"
| "proto_code StringProto = 2"
| "proto_code NumberProto = 3"
| "proto_code BooleanProto = 4"

definition std_host :: host where
  "std_host p k =
     (if k \<in> set (own_names p) then Some (5 * length (takeWhile (\<lambda>n. n \<noteq> k) (own_names p)) + proto_code p)
      else if k \<in> set (own_names ObjectProto)
      then Some (5 * length (takeWhile (\<lambda>n. n \<noteq> k) (own_names ObjectProto)))
      else None)"

section \<open>Evaluation of closed examples\<close>

named_theorems js_eval

declare nullish_def [js_eval] is_ws_def [js_eval] trim_def [js_eval] startsWith_def [js_eval]
  endsWith_def [js_eval] is_digit_def [js_eval] digit_val_def [js_eval] digits_val_def [js_eval]
  canonical_nat_def [js_eval] array_index_def [js_eval] parseInt_def [js_eval]
  inherited_def [js_eval] securityTerms_def [js_eval] validateSecurityTerms_def [js_eval]
  validateInput_def [js_eval] globalConfig0_def [js_eval] applyTransformers_def [js_eval]
  coalesce_def [js_eval] getProp_def [js_eval] setProp_def [js_eval] hasProp_def [js_eval]
  applies_def [js_eval] removeProp_def [js_eval] std_host_def [js_eval]


named_theorems tmpl_eval

declare js_Number_def [tmpl_eval] int_to_string_def [tmpl_eval] own_toString_def [tmpl_eval]
  js_replace_def [tmpl_eval] io_ret_def [tmpl_eval] io_lift_def [tmpl_eval] io_log_def [tmpl_eval]
  io_bind_def [tmpl_eval] log_rethrow_def [tmpl_eval] engine0_def [tmpl_eval]
  engine_use_def [tmpl_eval] processArg_def [tmpl_eval] lookup_transform_def [tmpl_eval]
  unknown_message_def [tmpl_eval] applyTransform_def [tmpl_eval]
  extractTemplateContent_def [tmpl_eval] extractTransformers_def [tmpl_eval]
  validateTemplateInput_def [tmpl_eval] processTemplateMatch_def [tmpl_eval]
  processTemplate_def [tmpl_eval] safe_num_def [tmpl_eval] first_arg_def [tmpl_eval]
  add_transform_def [tmpl_eval] multiply_transform_def [tmpl_eval] test_engine_def [tmpl_eval]
  digits_of.simps [tmpl_eval] Let_def [tmpl_eval]



text \<open>The evaluations in a log: every evaluated expression logs its path once, with the
  operation \<open>get\<close>.\<close>

fun is_get :: "log_event \<Rightarrow> bool" where
  "is_get (Log operation path v) = (operation = ''get'')"
| "is_get ev = False"

definition evaluations :: "log_event list \<Rightarrow> nat" where
  "evaluations l = length (filter is_get l)"

section \<open>Properties of validation\<close>

lemma check_parts_Inl:
  "check_parts ps = Inl e \<Longrightarrow> \<exists>R \<in> set ps. R \<in> set securityTerms \<and> e = SecurityViolation R"
  by (induction ps) (auto split: if_splits)

lemma check_parts_reserved:
  "R \<in> set ps \<Longrightarrow> R \<in> set securityTerms \<Longrightarrow> \<exists>e. check_parts ps = Inl e"
  by (induction ps) auto

lemma split_on_append_dot:
  "CHR ''.'' \<notin> set a \<Longrightarrow> split_on CHR ''.'' (a @ CHR ''.'' # b) = a # split_on CHR ''.'' b"
  by (induction a) auto

lemma split_on_no_sep: "c \<notin> set s \<Longrightarrow> split_on c s = [s]"
  by (induction s) auto

lemma securityTerms_no_dot: "R \<in> set securityTerms \<Longrightarrow> CHR ''.'' \<notin> set R"
  by (auto simp: securityTerms_def)

lemma validateSecurityTerms_a_dot:
  assumes "R \<in> set securityTerms"
  shows "validateSecurityTerms (''a.'' @ R) = Inl (SecurityViolation R)"
proof -
  have "split_on CHR ''.'' (''a'' @ CHR ''.'' # R) = ''a'' # split_on CHR ''.'' R"
    by (rule split_on_append_dot) simp
  moreover have "split_on CHR ''.'' R = [R]"
    using assms by (simp add: split_on_no_sep securityTerms_no_dot)
  moreover have "''a'' \<notin> set securityTerms"
    by (simp add: securityTerms_def)
  ultimately show ?thesis
    using assms by (simp add: validateSecurityTerms_def)
qed

lemma not_ws_a: "\<not> is_ws CHR ''a''"
  by (simp add: is_ws_def)

lemma dropWhile_rev_a: "dropWhile is_ws (rev R @ ''.a'') \<noteq> []"
  using not_ws_a by (simp add: dropWhile_eq_Nil_conv)

lemma trim_a_dot: "trim (''a.'' @ R) \<noteq> []"
  using dropWhile_rev_a [of R] not_ws_a by (simp add: trim_def)

lemma trim_Nil_empty: "trim [] = []"
  by (simp add: trim_def)

lemma validateInput_nullish: "nullish obj \<Longrightarrow> validateInput obj path = Inl NullOrUndefined"
  by (simp add: validateInput_def)

lemma validateInput_blank:
  "\<not> nullish obj \<Longrightarrow> trim s = [] \<Longrightarrow> validateInput obj (Str s) = Inl InvalidPath"
  by (simp add: validateInput_def)

lemma validateInput_not_string:
  "\<not> nullish obj \<Longrightarrow> \<forall>s. path \<noteq> Str s \<Longrightarrow> validateInput obj path = Inl InvalidPath"
  by (cases path) (simp_all add: validateInput_def)

lemma validateInput_reserved:
  assumes "\<not> nullish obj" and "trim s \<noteq> []"
    and "R \<in> set (split_on CHR ''.'' s)" and "R \<in> set securityTerms"
  shows "\<exists>R' \<in> set (split_on CHR ''.'' s). R' \<in> set securityTerms \<and>
           validateInput obj (Str s) = Inl (SecurityViolation R')"
proof -
  obtain e where e: "check_parts (split_on CHR ''.'' s) = Inl e"
    using check_parts_reserved [OF assms(3) assms(4)] by blast
  then obtain R' where "R' \<in> set (split_on CHR ''.'' s)" "R' \<in> set securityTerms"
    "e = SecurityViolation R'"
    using check_parts_Inl by blast
  moreover have "s \<noteq> []"
    using assms(2) trim_Nil_empty by blast
  ultimately show ?thesis
    using assms(1,2) e by (auto simp: validateInput_def validateSecurityTerms_def)
qed

section \<open>Security denial\<close>

text \<open>
  C5 (amended).  For every reserved identifier \<open>R\<close> and every container that is neither
  null nor undefined, \<open>getProp(c, "a." + R)\<close> fails with the security violation naming
  \<open>R\<close>, whatever the host, the configuration and the default value are.
\<close>

theorem getProp_security_denial:
  assumes "R \<in> set securityTerms" and "\<not> nullish c"
  shows "getProp h cfg c (Str (''a.'' @ R)) d = Inl (SecurityViolation R)"
  using assms trim_a_dot [of R]
  by (simp add: getProp_def validateInput_def validateSecurityTerms_a_dot del: append.simps)

theorem getProp_security_denial_witness:
  "''constructor'' \<in> set securityTerms \<and> \<not> nullish (Obj []) \<and>
   getProp std_host globalConfig0 (Obj []) (Str ''a.constructor'') Undefined
     = Inl (SecurityViolation ''constructor'')"
  using getProp_security_denial [of "''constructor''" "Obj []" std_host globalConfig0 Undefined]
  by (simp add: securityTerms_def nullish_def)

text \<open>
  C5 as stated fails for the null container: the container is validated before the path,
  and the call fails with the null-or-undefined error instead.
\<close>

theorem getProp_security_null_container:
  "getProp std_host globalConfig0 Null (Str ''a.__proto__'') Undefined = Inl NullOrUndefined \<and>
   getProp std_host globalConfig0 Null (Str ''a.__proto__'') Undefined
     \<noteq> Inl (SecurityViolation ''__proto__'')"
  by (simp add: getProp_def validateInput_def nullish_def)

section \<open>removeProp: null containers and invalid paths\<close>

text \<open>
  C6 (amended).  \<open>removeProp\<close> returns a null or undefined container unchanged without
  raising, whatever the path is.  For every other container it raises the invalid-path
  error for a path that is not a string or is empty or blank, and a security violation
  for a path with a reserved segment.
\<close>

theorem removeProp_null_then_validation:
  "(nullish c \<longrightarrow> removeProp h cfg c p = Inr c) \<and>
   (\<not> nullish c \<and> (\<forall>s. p \<noteq> Str s) \<longrightarrow> removeProp h cfg c p = Inl InvalidPath) \<and>
   (\<not> nullish c \<and> trim s = [] \<longrightarrow> removeProp h cfg c (Str s) = Inl InvalidPath) \<and>
   (\<not> nullish c \<and> trim s \<noteq> [] \<and> R \<in> set (split_on CHR ''.'' s) \<and> R \<in> set securityTerms \<longrightarrow>
      (\<exists>R' \<in> set (split_on CHR ''.'' s). R' \<in> set securityTerms \<and>
         removeProp h cfg c (Str s) = Inl (SecurityViolation R')))"
proof (intro conjI impI)
  assume "nullish c"
  then show "removeProp h cfg c p = Inr c"
    by (simp add: removeProp_def)
next
  assume "\<not> nullish c \<and> (\<forall>s. p \<noteq> Str s)"
  then show "removeProp h cfg c p = Inl InvalidPath"
    by (simp add: removeProp_def validateInput_not_string)
next
  assume "\<not> nullish c \<and> trim s = []"
  then show "removeProp h cfg c (Str s) = Inl InvalidPath"
    by (simp add: removeProp_def validateInput_blank)
next
  assume a: "\<not> nullish c \<and> trim s \<noteq> [] \<and> R \<in> set (split_on CHR ''.'' s) \<and> R \<in> set securityTerms"
  then obtain R' where "R' \<in> set (split_on CHR ''.'' s)" "R' \<in> set securityTerms"
    "validateInput c (Str s) = Inl (SecurityViolation R')"
    using validateInput_reserved [of c s R] by blast
  then show "\<exists>R' \<in> set (split_on CHR ''.'' s). R' \<in> set securityTerms \<and>
         removeProp h cfg c (Str s) = Inl (SecurityViolation R')"
    using a by (auto simp: removeProp_def)
qed

theorem removeProp_null_then_validation_witness:
  "removeProp std_host globalConfig0 Null (Str ''a.__proto__'') = Inr Null \<and>
   removeProp std_host globalConfig0 (Obj []) (Num 3) = Inl InvalidPath \<and>
   removeProp std_host globalConfig0 (Obj []) (Str '' '') = Inl InvalidPath \<and>
   (\<exists>R' \<in> set (split_on CHR ''.'' ''a.set''). R' \<in> set securityTerms \<and>
      removeProp std_host globalConfig0 (Obj []) (Str ''a.set'') = Inl (SecurityViolation R'))"
proof -
  have ws: "trim '' '' = []"
    by (simp add: trim_def is_ws_def)
  have nws: "trim ''a.set'' \<noteq> []"
    using trim_a_dot [of "''set''"] by simp
  have mem: "''set'' \<in> set (split_on CHR ''.'' ''a.set'')" "''set'' \<in> set securityTerms"
    by (simp_all add: securityTerms_def)
  have n1: "nullish Null" and n2: "\<not> nullish (Obj [])"
    by (simp_all add: nullish_def)
  show ?thesis
    using removeProp_null_then_validation [of Null std_host globalConfig0 "Str ''a.__proto__''" "[]" "[]"]
      removeProp_null_then_validation [of "Obj []" std_host globalConfig0 "Num 3" "'' ''" "[]"]
      removeProp_null_then_validation [of "Obj []" std_host globalConfig0 "Str ''a.set''" "''a.set''" "''set''"]
      ws nws mem n1 n2
    by simp
qed

text \<open>
  C6 as stated fails: with a null container an empty path and a reserved path are not
  rejected, the container comes back silently.
\<close>

theorem removeProp_null_invalid_path_silent:
  "removeProp std_host globalConfig0 Null (Str '''') = Inr Null \<and>
   removeProp std_host globalConfig0 Undefined (Str ''a.__proto__'') = Inr Undefined \<and>
   removeProp std_host globalConfig0 Null (Str '''') \<noteq> Inl InvalidPath \<and>
   removeProp std_host globalConfig0 Undefined (Str ''a.__proto__'')
     \<noteq> Inl (SecurityViolation ''__proto__'')"
  by (simp add: removeProp_def nullish_def)

section \<open>Writing, then reading\<close>



























section \<open>Removing twice\<close>













section \<open>Missing data\<close>

text \<open>
  C4.  The code raises a \<open>TypeError\<close> on data that is merely missing: \<open>hasProp\<close> applies
  the \<open>in\<close> operator to a scalar intermediate, and \<open>setProp\<close> reads a property of a
  null intermediate and writes a property of a scalar intermediate, where \<open>getProp\<close> and
  \<open>removeProp\<close> on the same data return the fallback and the unchanged container.
\<close>

theorem missing_data_raises_TypeError:
  "hasProp h cfg (Obj [(''a'', Num 5)]) (Str ''a.b'') = Inl TypeError \<and>
   setProp h globalConfig0 (Obj [(''a'', Null)]) (Str ''a.b'') (Num 1) = Inl TypeError \<and>
   setProp h globalConfig0 (Obj [(''a'', Num 5)]) (Str ''a.b'') (Num 1) = Inl TypeError \<and>
   getProp h globalConfig0 (Obj [(''a'', Null)]) (Str ''a.b'') Undefined = Inr Undefined \<and>
   removeProp h globalConfig0 (Obj [(''a'', Null)]) (Str ''a.b'') = Inr (Obj [(''a'', Null)])"
  by (simp add: js_eval)

section \<open>What a write leaves alone\<close>

















section \<open>Rendering\<close>

text \<open>
  C2.  With the transforms \<open>add\<close> and \<open>multiply\<close> of the test suite registered, rendering
  \<open>{{x | add:1 | multiply:2}}\<close> against \<open>{x: 3}\<close> resolves to \<open>8\<close>: the log shows \<open>add\<close>
  producing 4 from 3 and \<open>multiply\<close> producing 8 from that 4, in this order.
\<close>

theorem render_add_multiply:
  "processTemplate std_host globalConfig0 test_engine ''{{x | add:1 | multiply:2}}'' (Obj [(''x'', Num 3)])
   = ([Log ''transform'' ''start'' (Str ''{{x | add:1 | multiply:2}}''),
       Log ''get'' ''x'' (Num 3),
       Log ''transform'' ''add'' (Num 4),
       Log ''transform'' ''multiply'' (Num 8),
       Log ''transform'' ''complete'' (Str ''8'')],
      Inr ''8'')"
  by (simp add: js_eval tmpl_eval)




section \<open>Identical occurrences\<close>




lemma evaluations_append [simp]: "evaluations (l @ l') = evaluations l + evaluations l'"
  by (simp add: evaluations_def)

lemma evaluations_Nil [simp]: "evaluations [] = 0"
  by (simp add: evaluations_def)

lemma evaluations_Cons [simp]: "evaluations (ev # l) = (if is_get ev then 1 else 0) + evaluations l"
  by (simp add: evaluations_def)













end
